theory Spec2Isabelle
  imports Complex_Main "HOL-Library.Sublist"
begin

section \<open>The chat route: query orchestration pipeline\<close>

text \<open>
  A shallow embedding of \<^verbatim>\<open>src/app/api/chat/route.ts\<close>. JavaScript strings are
  \<^typ>\<open>string\<close>, a \<^typ>\<open>char\<close> standing for a code unit below 0x100. A number
  that is a distance or a score is a real or not a number (\<open>NaN\<close>), and the result of
  an arithmetic operation on it is rounded by a function of the environment; the
  components of a vector are \<^typ>\<open>real\<close>; counts and HTTP statuses are \<^typ>\<open>nat\<close>.
  Calls to the outside (completion, embedding, database, links route, exporter,
  streaming) are functions of an environment record; each call made is appended to
  an event log, and a thrown value is the left summand of the result.
  \<^verbatim>\<open>console.log\<close> output is left out; \<^verbatim>\<open>console.warn\<close> and
  \<^verbatim>\<open>console.error\<close> are events.
\<close>

subsection \<open>String operations of the language\<close>

definition nl :: string where
  "nl = [CHR 0x0A]"

definition apos :: string where
  "apos = [CHR 0x27]"

definition dq :: string where
  "dq = [CHR 0x22]"

text \<open>
  The white space and the line terminators that \<^verbatim>\<open>trim\<close> removes, among the code
  units below 0x100: tab, line feed, vertical tab, form feed, carriage return, space and
  the no-break space U+00A0.
\<close>

definition isWhiteSpace :: "char \<Rightarrow> bool" where
  "isWhiteSpace c \<longleftrightarrow>
     c \<in> {CHR 0x09, CHR 0x0A, CHR 0x0B, CHR 0x0C, CHR 0x0D, CHR 0x20, CHR 0xA0}"

definition trim :: "string \<Rightarrow> string" where
  "trim s = rev (dropWhile isWhiteSpace (rev (dropWhile isWhiteSpace s)))"

text \<open>\<^verbatim>\<open>toUpperCase\<close> on the letters a to z; other code units are left as they are.\<close>

definition toUpperChar :: "char \<Rightarrow> char" where
  "toUpperChar c =
     (let n = of_char c :: nat in if 97 \<le> n \<and> n \<le> 122 then char_of (n - 32) else c)"

definition toUpperCase :: "string \<Rightarrow> string" where
  "toUpperCase s = map toUpperChar s"

text \<open>\<^verbatim>\<open>s.replace(pat, rep)\<close> with a string pattern: the first occurrence only.\<close>

fun replace :: "string \<Rightarrow> string \<Rightarrow> string \<Rightarrow> string" where
  "replace pat rep [] = (if pat = [] then rep else [])"
| "replace pat rep (c # cs) =
     (if prefix pat (c # cs) then rep @ drop (length pat) (c # cs)
      else c # replace pat rep cs)"

text \<open>\<^verbatim>\<open>xs.join(sep)\<close> on an array of strings.\<close>

fun join :: "string \<Rightarrow> string list \<Rightarrow> string" where
  "join sep [] = []"
| "join sep [x] = x"
| "join sep (x # y # ys) = x @ sep @ join sep (y # ys)"

text \<open>\<^verbatim>\<open>xs.slice(-n)\<close>: the last \<open>n\<close> elements, all of them when there are fewer.\<close>

definition slice_last :: "nat \<Rightarrow> 'a list \<Rightarrow> 'a list" where
  "slice_last n xs = drop (length xs - n) xs"

definition findLast :: "('a \<Rightarrow> bool) \<Rightarrow> 'a list \<Rightarrow> 'a option" where
  "findLast P xs = find P (rev xs)"

text \<open>A string is truthy when it is not empty; \<^verbatim>\<open>undefined\<close> is \<open>None\<close>.\<close>

definition truthy :: "string option \<Rightarrow> bool" where
  "truthy v \<longleftrightarrow> (case v of None \<Rightarrow> False | Some s \<Rightarrow> s \<noteq> [])"

definition or_else :: "string option \<Rightarrow> string \<Rightarrow> string" where
  "or_else v d = (if truthy v then the v else d)"

subsection \<open>Numbers\<close>

text \<open>
  A distance or a score: a real, or \<open>NaN\<close>. The order is the one the database sorts
  by, in which \<open>NaN\<close> is greater than every number and equal to itself.
\<close>

datatype number = Num real | NaN

fun number_le :: "number \<Rightarrow> number \<Rightarrow> bool" where
  "number_le (Num x) (Num y) \<longleftrightarrow> x \<le> y"
| "number_le a NaN \<longleftrightarrow> True"
| "number_le NaN (Num y) \<longleftrightarrow> False"

instantiation number :: linorder
begin

definition less_eq_number :: "number \<Rightarrow> number \<Rightarrow> bool" where
  "less_eq_number a b \<longleftrightarrow> number_le a b"

definition less_number :: "number \<Rightarrow> number \<Rightarrow> bool" where
  "less_number a b \<longleftrightarrow> number_le a b \<and> \<not> number_le b a"

instance
proof
  fix x y z :: number
  show "(x < y) = (x \<le> y \<and> \<not> y \<le> x)"
    by (simp add: less_number_def less_eq_number_def)
  show "x \<le> x"
    by (cases x) (simp_all add: less_eq_number_def)
  show "x \<le> y \<Longrightarrow> y \<le> z \<Longrightarrow> x \<le> z"
    by (cases x; cases y; cases z) (simp_all add: less_eq_number_def)
  show "x \<le> y \<Longrightarrow> y \<le> x \<Longrightarrow> x = y"
    by (cases x; cases y) (simp_all add: less_eq_number_def)
  show "x \<le> y \<or> y \<le> x"
    by (cases x; cases y) (auto simp: less_eq_number_def)
qed

end

text \<open>The comparison \<^verbatim>\<open>a >= b\<close> of the language: false as soon as one side is \<open>NaN\<close>.\<close>

fun js_ge :: "number \<Rightarrow> number \<Rightarrow> bool" where
  "js_ge (Num x) (Num y) \<longleftrightarrow> y \<le> x"
| "js_ge a b \<longleftrightarrow> False"

text \<open>\<^verbatim>\<open>1 - d\<close> in floating point: the rounded difference, \<open>NaN\<close> for \<open>NaN\<close>.\<close>

fun one_minus :: "(real \<Rightarrow> real) \<Rightarrow> number \<Rightarrow> number" where
  "one_minus rnd (Num d) = Num (rnd (1 - d))"
| "one_minus rnd NaN = NaN"

subsection \<open>JSON.stringify on the chat history\<close>

definition hexDigit :: "nat \<Rightarrow> char" where
  "hexDigit n = (if n < 10 then char_of (48 + n) else char_of (87 + n))"

definition QuoteJSONChar :: "char \<Rightarrow> string" where
  "QuoteJSONChar c =
     (let n = of_char c :: nat in
      if n = 0x22 then [CHR 0x5C, CHR 0x22]
      else if n = 0x5C then [CHR 0x5C, CHR 0x5C]
      else if n = 0x08 then [CHR 0x5C, CHR ''b'']
      else if n = 0x0C then [CHR 0x5C, CHR ''f'']
      else if n = 0x0A then [CHR 0x5C, CHR ''n'']
      else if n = 0x0D then [CHR 0x5C, CHR ''r'']
      else if n = 0x09 then [CHR 0x5C, CHR ''t'']
      else if n < 0x20 then
        [CHR 0x5C, CHR ''u'', CHR ''0'', CHR ''0'', hexDigit (n div 16), hexDigit (n mod 16)]
      else [c])"

definition QuoteJSONString :: "string \<Rightarrow> string" where
  "QuoteJSONString s = dq @ concat (map QuoteJSONChar s) @ dq"

record ChatHistory =
  role :: string
  content :: string

text \<open>
  The messages are taken at their declared type \<^verbatim>\<open>{role: string; content: string}\<close>,
  with the two properties in this order.
\<close>

definition JSON_stringify_message :: "ChatHistory \<Rightarrow> string" where
  "JSON_stringify_message m =
     ''{'' @ dq @ ''role'' @ dq @ '':'' @ QuoteJSONString (role m) @ '','' @
     dq @ ''content'' @ dq @ '':'' @ QuoteJSONString (content m) @ ''}''"

definition JSON_stringify :: "ChatHistory list \<Rightarrow> string" where
  "JSON_stringify ms = ''['' @ join '','' (map JSON_stringify_message ms) @ '']''"

subsection \<open>Types of the route\<close>

record Document =
  doc_id :: string
  doc_text :: string
  doc_title :: string
  doc_url :: string
  doc_chunk_id :: string
  similarity_score :: number

record Metadata =
  input :: string
  output' :: string
  contextCount :: nat
  rewrittenQuery :: string
  responseType :: string

record PipelineResponse =
  text' :: string
  type :: string
  metadata :: Metadata

text \<open>A row of the table: the \<^verbatim>\<open>vector\<close> column may be null.\<close>

record row =
  row_id :: string
  row_text :: string
  row_title :: string
  row_url :: string
  row_chunk_id :: string
  row_vector :: "real list option"

text \<open>A thrown value: an \<^verbatim>\<open>Error\<close> with its message, or something else.\<close>

datatype thrown = Error string | NonError

record completion_request =
  model :: string
  messages :: "(string \<times> string) list"
  temperature :: "nat option"

record links_data =
  videoReferences :: "string option"
  relatedProducts :: "string option"

record links_response =
  status :: nat
  json :: "thrown + links_data"

record telemetry =
  tel_metadata :: Metadata
  tel_projectName :: string
  tel_endpoint :: string
  tel_type :: string

record stream_request =
  stream_model :: string
  stream_messages :: "(string \<times> string) list"
  stream_telemetry :: telemetry

datatype response =
  ErrorResponse nat string "string option"
| DataStreamResponse stream_request

datatype event =
  ConsoleWarn string
| ConsoleError string
| Completion completion_request
| Embed string
| Query "real list" string nat
| Fetch string string
| GetSettings string telemetry
| StreamText stream_request

text \<open>
  The environment: the process environment variables and the behaviour of every
  outside service. The distance operator \<^verbatim>\<open><=>\<close> belongs to the database and
  is a parameter, and so is the rounding of a real to the floating-point number next
  to it.
\<close>

record env =
  LANGSMITH_API_KEY :: "string option"
  LANGSMITH_PROJECT :: "string option"
  LANGSMITH_ENDPOINT :: "string option"
  completions_create :: "completion_request \<Rightarrow> thrown + string option"
  embed :: "string \<Rightarrow> thrown + real list"
  db_error :: "real list \<Rightarrow> string \<Rightarrow> nat \<Rightarrow> thrown option"
  db_table :: "string \<Rightarrow> row list"
  db_distance :: "real list \<Rightarrow> real list \<Rightarrow> number"
  float_round :: "real \<Rightarrow> real"
  fetch_links :: "string \<Rightarrow> string \<Rightarrow> thrown + links_response"
  getSettings :: "string \<Rightarrow> telemetry \<Rightarrow> thrown option"
  streamText :: "stream_request \<Rightarrow> thrown option"

subsection \<open>Effects: an event log and a result or a thrown value\<close>

type_synonym 'a io = "event list \<times> (thrown + 'a)"

definition return_io :: "'a \<Rightarrow> 'a io" where
  "return_io x = ([], Inr x)"

definition call_io :: "event \<Rightarrow> (thrown + 'a) \<Rightarrow> 'a io" where
  "call_io ev r = ([ev], r)"

definition bind_io :: "'a io \<Rightarrow> ('a \<Rightarrow> 'b io) \<Rightarrow> 'b io" where
  "bind_io m f =
     (case m of
        (l, Inl e) \<Rightarrow> (l, Inl e)
      | (l, Inr x) \<Rightarrow> (case f x of (l', r) \<Rightarrow> (l @ l', r)))"

definition catch_io :: "'a io \<Rightarrow> (thrown \<Rightarrow> 'a io) \<Rightarrow> 'a io" where
  "catch_io m h =
     (case m of
        (l, Inl e) \<Rightarrow> (case h e of (l', r) \<Rightarrow> (l @ l', r))
      | (l, Inr x) \<Rightarrow> (l, Inr x))"

subsection \<open>LangSmith configuration\<close>

definition module_init :: "env \<Rightarrow> event list" where
  "module_init e =
     (if \<not> truthy (LANGSMITH_API_KEY e)
      then [ConsoleWarn ''LANGSMITH_API_KEY not found in environment variables'']
      else [])"

definition langsmith_projectName :: "env \<Rightarrow> string" where
  "langsmith_projectName e = or_else (LANGSMITH_PROJECT e) ''default''"

definition langsmith_endpoint :: "env \<Rightarrow> string" where
  "langsmith_endpoint e = or_else (LANGSMITH_ENDPOINT e) ''https://api.smith.langchain.com''"

subsection \<open>DatabaseService.searchNeonDb\<close>

text \<open>
  The statement sent to the database: rows with a non-null vector, ordered by their
  distance to the parameter, cut at the limit, each with
  \<^verbatim>\<open>1 - (vector <=> $1::vector)\<close> as its score, which \<^verbatim>\<open>parseFloat\<close> reads back
  as the same number or \<open>NaN\<close>. Rows at the same distance keep
  the order of the table here; the database leaves their order open. The embedding is
  handed over as it is, without the detour through its text form.
\<close>

definition candidates :: "row list \<Rightarrow> (row \<times> real list) list" where
  "candidates rows =
     concat (map (\<lambda>r. case row_vector r of None \<Rightarrow> [] | Some v \<Rightarrow> [(r, v)]) rows)"

definition select_row :: "env \<Rightarrow> real list \<Rightarrow> row \<times> real list \<Rightarrow> Document" where
  "select_row e q rv =
     \<lparr>doc_id = row_id (fst rv), doc_text = row_text (fst rv), doc_title = row_title (fst rv),
      doc_url = row_url (fst rv), doc_chunk_id = row_chunk_id (fst rv),
      similarity_score = one_minus (float_round e) (db_distance e (snd rv) q)\<rparr>"

definition matching_rows ::
  "env \<Rightarrow> real list \<Rightarrow> string \<Rightarrow> nat \<Rightarrow> (row \<times> real list) list" where
  "matching_rows e q tableName topK =
     take topK (sort_key (\<lambda>rv. db_distance e (snd rv) q) (candidates (db_table e tableName)))"

definition run_query :: "env \<Rightarrow> real list \<Rightarrow> string \<Rightarrow> nat \<Rightarrow> Document list" where
  "run_query e q tableName topK = map (select_row e q) (matching_rows e q tableName topK)"

definition client_query :: "env \<Rightarrow> real list \<Rightarrow> string \<Rightarrow> nat \<Rightarrow> Document list io" where
  "client_query e q tableName topK =
     call_io (Query q tableName topK)
       (case db_error e q tableName topK of
          Some err \<Rightarrow> Inl err
        | None \<Rightarrow> Inr (run_query e q tableName topK))"

definition error_message :: "thrown \<Rightarrow> string \<Rightarrow> string" where
  "error_message t d = (case t of Error m \<Rightarrow> m | NonError \<Rightarrow> d)"

definition searchNeonDb :: "env \<Rightarrow> real list \<Rightarrow> string \<Rightarrow> nat \<Rightarrow> Document list io" where
  "searchNeonDb e queryEmbedding tableName topK =
     catch_io (client_query e queryEmbedding tableName topK)
       (\<lambda>err. ([ConsoleError (''[DB Search] Error: '' @ error_message err ''Unknown error'')],
               Inl err))"

subsection \<open>Prompts\<close>

definition relevancePrompt :: "string \<Rightarrow> ChatHistory list \<Rightarrow> string" where
  "relevancePrompt query chatHistory =
     ''Given this question and chat history, determine if it is:'' @ nl @
     ''1. A greeting/send-off (GREETING)'' @ nl @
     ''2. Related to woodworking/tools/company (RELEVANT)'' @ nl @
     ''3. Inappropriate content (INAPPROPRIATE)'' @ nl @
     ''4. Unrelated (NOT_RELEVANT)'' @ nl @
     nl @
     ''Chat History: '' @ JSON_stringify (slice_last 5 chatHistory) @ nl @
     ''Current Question: '' @ query @ nl @
     nl @
     ''Response (GREETING, RELEVANT, INAPPROPRIATE, or NOT_RELEVANT):''"

definition rewritePrompt :: "string \<Rightarrow> ChatHistory list \<Rightarrow> string" where
  "rewritePrompt query chatHistory =
     ''You are bent'' @ apos @ ''s woodworks assistant so question will be related to wood shop. '' @ nl @
     ''Rewrites user query to make them more specific and searchable, taking into account '' @ nl @
     ''the chat history if provided. Only return the rewritten query without any explanations.'' @ nl @
     nl @
     ''Original query: '' @ query @ nl @
     ''Chat history: '' @ JSON_stringify chatHistory @ nl @
     nl @
     ''Rewritten query:''"

definition greetingPrompt :: "string \<Rightarrow> string" where
  "greetingPrompt lastUserMessage =
     ''The following message is a greeting or casual message. Please provide a friendly and engaging response: '' @
     lastUserMessage"

definition indent16 :: string where
  "indent16 = replicate 16 (CHR 0x20)"

definition notRelevantPrompt :: "string \<Rightarrow> string" where
  "notRelevantPrompt lastUserMessage =
     ''The following question is not directly related to woodworking or the assistant'' @ apos @
     ''s expertise. Provide a direct response that:'' @ nl @
     indent16 @ ''1. Politely acknowledges the question'' @ nl @
     indent16 @ ''2. Explains that you are specialized in woodworking and Jason Bent'' @ apos @
     ''s content'' @ nl @
     indent16 @ ''3. Asks them to rephrase their question to relate to woodworking topics'' @ nl @
     indent16 @ ''Question: '' @ lastUserMessage"

definition generationPrompt :: "ChatHistory list \<Rightarrow> string \<Rightarrow> string \<Rightarrow> string" where
  "generationPrompt chatHistory contextTexts lastUserMessage =
     ''Chat History:'' @ nl @ JSON_stringify (slice_last 5 chatHistory) @ nl @ nl @
     ''Context:'' @ nl @ contextTexts @ nl @ nl @
     ''Question: '' @ lastUserMessage"

definition inappropriateAnswer :: string where
  "inappropriateAnswer =
     ''I apologize, but I cannot assist with inappropriate content or queries that could cause harm. I'' @
     apos @ ''m here to help with woodworking and furniture making questions only.''"

definition SYSTEM_INSTRUCTIONS :: string where
  "SYSTEM_INSTRUCTIONS = concat (map (\<lambda>l. l @ nl)
    [''You are an AI assistant representing Jason Bent'' @ apos @
       ''s woodworking expertise. Your role is to:'',
     ''1. Analyze woodworking documents and provide clear, natural responses that sound like Jason Bent is explaining the concepts.'',
     ''2. Convert technical content into conversational, easy-to-understand explanations.'',
     ''3. Focus on explaining the core concepts and techniques rather than quoting directly from transcripts.'',
     ''4. Always maintain a friendly, professional tone as if Jason Bent is speaking directly to the user.'',
     ''5. Organize multi-part responses clearly with natural transitions.'',
     ''6. Keep responses concise and focused on the specific question asked.'',
     ''7. If information isn'' @ apos @ ''t available in the provided context, clearly state that.'',
     ''8. Always respond in English, regardless of the input language.'',
     ''9. Avoid using phrases like '' @ dq @ ''in the video'' @ dq @ '' or '' @ dq @
       ''the transcript shows'' @ dq @
       '' - instead, speak directly about the techniques and concepts.'',
     [],
     ''Response Structure and Formatting:'',
     ''   - Use markdown formatting with clear hierarchical structure'',
     ''   - Each major section must start with '' @ apos @ ''### '' @ apos @
       '' followed by a number and bold title'',
     ''   - Format section headers as: ### 1. **Title Here**'',
     ''   - Use bullet points (-) for detailed explanations under each section'',
     ''   - Each bullet point must contain 2-3 sentences minimum with examples'',
     ''   - Add blank lines between major sections only'',
     ''   - Indent bullet points with proper spacing'',
     ''   - Do NOT use bold formatting ('' @ ''**) or line breaks within bullet point content'',
     ''   - Bold formatting should ONLY be used in section headers'',
     ''   - Keep all content within a bullet point on the same line'',
     ''   - Any asterisks ('' @ ''*) in the content should be treated as literal characters, not formatting'',
     [],
     [],
     [],
     ''Remember:'',
     ''- You are speaking as Jason Bent'' @ apos @
       ''s AI assistant and so if you are mentioning jason bent, you should use the word '' @ dq @
       ''Jason Bent'' @ dq @ '' instead of '' @ dq @ ''I'' @ dq @ '' like '' @ dq @
       ''Jason Bent will suggest that you...'' @ dq,
     ''- Focus on analyzing the transcripts and explaining the concepts naturally rather than quoting transcripts'',
     ''- Keep responses clear, practical, and focused on woodworking expertise''])"

subsection \<open>checkRelevance and rewriteQuery\<close>

definition chat_completions_create :: "env \<Rightarrow> completion_request \<Rightarrow> string option io" where
  "chat_completions_create e req = call_io (Completion req) (completions_create e req)"

text \<open>The request objects handed to \<^verbatim>\<open>openaiClient.chat.completions.create\<close>.\<close>

definition relevance_request :: "string \<Rightarrow> ChatHistory list \<Rightarrow> completion_request" where
  "relevance_request query chatHistory =
     \<lparr>model = ''gpt-4o-mini'',
      messages = [(''user'', relevancePrompt query chatHistory)],
      temperature = Some 0\<rparr>"

definition rewrite_request :: "string \<Rightarrow> ChatHistory list \<Rightarrow> completion_request" where
  "rewrite_request query chatHistory =
     \<lparr>model = ''gpt-4o-mini'',
      messages = [(''user'', rewritePrompt query chatHistory)],
      temperature = Some 0\<rparr>"

definition greeting_request :: "string \<Rightarrow> completion_request" where
  "greeting_request lastUserMessage =
     \<lparr>model = ''gpt-4o-mini'',
      messages = [(''user'', greetingPrompt lastUserMessage)],
      temperature = None\<rparr>"

definition not_relevant_request :: "string \<Rightarrow> completion_request" where
  "not_relevant_request lastUserMessage =
     \<lparr>model = ''gpt-4o-mini'',
      messages = [(''user'', notRelevantPrompt lastUserMessage)],
      temperature = None\<rparr>"

definition generation_request :: "ChatHistory list \<Rightarrow> string \<Rightarrow> string \<Rightarrow> completion_request" where
  "generation_request chatHistory ctx lastUserMessage =
     \<lparr>model = ''gpt-4o-mini'',
      messages =
        [(''system'', SYSTEM_INSTRUCTIONS),
         (''user'', generationPrompt chatHistory ctx lastUserMessage)],
      temperature = None\<rparr>"

definition checkRelevance :: "env \<Rightarrow> string \<Rightarrow> ChatHistory list \<Rightarrow> string io" where
  "checkRelevance e query chatHistory =
     bind_io (chat_completions_create e (relevance_request query chatHistory))
       (\<lambda>result.
          return_io (or_else (map_option (\<lambda>c. toUpperCase (trim c)) result) ''NOT_RELEVANT''))"

definition rewriteQuery :: "env \<Rightarrow> string \<Rightarrow> ChatHistory list \<Rightarrow> string io" where
  "rewriteQuery e query chatHistory =
     catch_io
       (bind_io (chat_completions_create e (rewrite_request query chatHistory))
          (\<lambda>result.
             let cleanedResponse = map_option (\<lambda>c. trim (replace ''Rewritten query:'' [] c)) result
             in return_io (or_else cleanedResponse query)))
       (\<lambda>error. return_io query)"

text \<open>The query that \<^verbatim>\<open>rewriteQuery\<close> hands back, as a value.\<close>

definition rewritten_of :: "env \<Rightarrow> string \<Rightarrow> ChatHistory list \<Rightarrow> string" where
  "rewritten_of e q ms =
     (case completions_create e (rewrite_request q ms) of
        Inl err \<Rightarrow> q
      | Inr result \<Rightarrow>
          or_else (map_option (\<lambda>c. trim (replace ''Rewritten query:'' [] c)) result) q)"

subsection \<open>The pipeline\<close>

definition context_block :: "Document \<Rightarrow> string" where
  "context_block doc =
     ''Source: '' @ doc_title doc @ nl @ ''Content: '' @ doc_text doc @ nl @ ''URL: '' @ doc_url doc"

definition contextTexts :: "Document list \<Rightarrow> string" where
  "contextTexts similarDocs = join (nl @ nl) (map context_block similarDocs)"

definition embed_value :: "env \<Rightarrow> string \<Rightarrow> real list io" where
  "embed_value e v = call_io (Embed v) (embed e v)"

text \<open>The request to the links route and the reading of its body; the data is only logged.\<close>

definition links_request :: "env \<Rightarrow> string \<Rightarrow> string \<Rightarrow> unit io" where
  "links_request e ctx rewritten =
     bind_io (call_io (Fetch ctx rewritten) (fetch_links e ctx rewritten))
       (\<lambda>linksResponse. bind_io ([], json linksResponse) (\<lambda>linksData. return_io ()))"

definition relevant_branch :: "env \<Rightarrow> ChatHistory list \<Rightarrow> string \<Rightarrow> PipelineResponse io" where
  "relevant_branch e chatHistory lastUserMessage =
     bind_io (rewriteQuery e lastUserMessage chatHistory) (\<lambda>rewritten.
     bind_io (embed_value e rewritten) (\<lambda>embedding.
     bind_io (searchNeonDb e embedding ''bents'' 10) (\<lambda>similarDocs.
     bind_io
       (if contextTexts similarDocs \<noteq> []
        then links_request e (contextTexts similarDocs) rewritten
        else return_io ()) (\<lambda>u.
     bind_io
       (chat_completions_create e
          (generation_request chatHistory (contextTexts similarDocs) lastUserMessage)) (\<lambda>completion.
     let answer = or_else completion []
     in return_io
          \<lparr>text' = answer, type = ''chat'',
           metadata =
             \<lparr>input = lastUserMessage, output' = answer, contextCount = length similarDocs,
              rewrittenQuery = rewritten, responseType = ''chat''\<rparr>\<rparr>)))))"

definition greeting_branch :: "env \<Rightarrow> string \<Rightarrow> PipelineResponse io" where
  "greeting_branch e lastUserMessage =
     bind_io (chat_completions_create e (greeting_request lastUserMessage)) (\<lambda>completion.
     let answer = or_else completion []
     in return_io
          \<lparr>text' = answer, type = ''greeting'',
           metadata =
             \<lparr>input = lastUserMessage, output' = answer, contextCount = 0,
              rewrittenQuery = [], responseType = ''greeting''\<rparr>\<rparr>)"

definition inappropriate_branch :: "string \<Rightarrow> PipelineResponse io" where
  "inappropriate_branch lastUserMessage =
     (let answer = inappropriateAnswer
      in return_io
           \<lparr>text' = answer, type = ''inappropriate'',
            metadata =
              \<lparr>input = lastUserMessage, output' = answer, contextCount = 0,
               rewrittenQuery = [], responseType = ''inappropriate''\<rparr>\<rparr>)"

definition not_relevant_branch :: "env \<Rightarrow> string \<Rightarrow> PipelineResponse io" where
  "not_relevant_branch e lastUserMessage =
     bind_io (chat_completions_create e (not_relevant_request lastUserMessage)) (\<lambda>completion.
     let answer = or_else completion []
     in return_io
          \<lparr>text' = answer, type = ''not-relevant'',
           metadata =
             \<lparr>input = lastUserMessage, output' = answer, contextCount = 0,
              rewrittenQuery = [], responseType = ''not-relevant''\<rparr>\<rparr>)"

definition pipeline :: "env \<Rightarrow> ChatHistory list \<Rightarrow> string \<Rightarrow> PipelineResponse io" where
  "pipeline e chatHistory lastUserMessage =
     bind_io (checkRelevance e lastUserMessage chatHistory) (\<lambda>relevanceResult.
       if relevanceResult = ''GREETING'' \<or> relevanceResult = ''INAPPROPRIATE''
          \<or> relevanceResult = ''NOT_RELEVANT''
       then
         (if relevanceResult = ''GREETING'' then greeting_branch e lastUserMessage
          else if relevanceResult = ''INAPPROPRIATE'' then inappropriate_branch lastUserMessage
          else if relevanceResult = ''NOT_RELEVANT'' then not_relevant_branch e lastUserMessage
          else relevant_branch e chatHistory lastUserMessage)
       else relevant_branch e chatHistory lastUserMessage)"

subsection \<open>The POST handler\<close>

text \<open>
  The parsed body: a falsy value, or a value whose \<^verbatim>\<open>messages\<close> property is
  missing, not an array, or an array of messages.
\<close>

datatype messages_field = Missing | NotArray | MessagesArray "ChatHistory list"

datatype body = FalsyBody | Body messages_field

definition lastUserMessage_of :: "ChatHistory list \<Rightarrow> string" where
  "lastUserMessage_of ms =
     or_else (map_option content (findLast (\<lambda>msg. role msg = ''user'') ms)) []"

definition telemetry_of :: "env \<Rightarrow> PipelineResponse \<Rightarrow> string \<Rightarrow> telemetry" where
  "telemetry_of e response sfx =
     \<lparr>tel_metadata = metadata response,
      tel_projectName = langsmith_projectName e,
      tel_endpoint = langsmith_endpoint e,
      tel_type = type response @ sfx\<rparr>"

definition stream_request_of :: "env \<Rightarrow> ChatHistory list \<Rightarrow> PipelineResponse \<Rightarrow> stream_request" where
  "stream_request_of e ms response =
     \<lparr>stream_model = ''gpt-4o-mini'',
      stream_messages =
        [(''system'', SYSTEM_INSTRUCTIONS)] @ map (\<lambda>m. (role m, content m)) ms @
        [(''assistant'', text' response)],
      stream_telemetry = telemetry_of e response ''-stream''\<rparr>"

definition log_to_langsmith :: "env \<Rightarrow> PipelineResponse \<Rightarrow> event list" where
  "log_to_langsmith e response =
     GetSettings (type response @ ''-completion'') (telemetry_of e response ''-completion'') #
     (case getSettings e (type response @ ''-completion'') (telemetry_of e response ''-completion'') of
        Some langsmithError \<Rightarrow> [ConsoleError ''LangSmith logging error:'']
      | None \<Rightarrow> [])"

definition stream_to_user :: "env \<Rightarrow> stream_request \<Rightarrow> event list \<times> response" where
  "stream_to_user e sreq =
     (case streamText e sreq of
        Some streamError \<Rightarrow>
          ([StreamText sreq, ConsoleError ''Streaming error:''],
           ErrorResponse 500 ''Failed to stream response''
             (Some (error_message streamError ''Unknown streaming error'')))
      | None \<Rightarrow> ([StreamText sreq], DataStreamResponse sreq))"

definition POST :: "env \<Rightarrow> thrown + body \<Rightarrow> event list \<times> response" where
  "POST e req_json =
     (case req_json of
        Inl parseError \<Rightarrow>
          ([ConsoleError ''Failed to parse request body:''],
           ErrorResponse 400 ''Invalid JSON in request body'' None)
      | Inr FalsyBody \<Rightarrow>
          ([], ErrorResponse 400 ''Invalid request format. Expected messages array.'' None)
      | Inr (Body Missing) \<Rightarrow>
          ([], ErrorResponse 400 ''Invalid request format. Expected messages array.'' None)
      | Inr (Body NotArray) \<Rightarrow>
          ([], ErrorResponse 400 ''Invalid request format. Expected messages array.'' None)
      | Inr (Body (MessagesArray ms)) \<Rightarrow>
          (if \<not> truthy (LANGSMITH_API_KEY e) then
             ([ConsoleError ''LangSmith API key not configured''],
              ErrorResponse 500 ''LangSmith configuration error'' None)
           else
             (case pipeline e ms (lastUserMessage_of ms) of
                (l, Inl error) \<Rightarrow>
                  (l @ [ConsoleError ''API route error:''],
                   ErrorResponse 500 (error_message error ''Unknown error'') None)
              | (l, Inr response) \<Rightarrow>
                  (case stream_to_user e (stream_request_of e ms response) of
                     (l', r) \<Rightarrow> (l @ log_to_langsmith e response @ l', r)))))"

subsection \<open>Counting the calls of a run\<close>

fun is_completion :: "event \<Rightarrow> bool" where
  "is_completion (Completion req) = True"
| "is_completion ev = False"

fun is_retrieval :: "event \<Rightarrow> bool" where
  "is_retrieval (Embed v) = True"
| "is_retrieval (Query q t k) = True"
| "is_retrieval ev = False"

definition completion_calls :: "event list \<Rightarrow> nat" where
  "completion_calls l = length (filter is_completion l)"

definition retrieval_calls :: "event list \<Rightarrow> nat" where
  "retrieval_calls l = length (filter is_retrieval l)"

subsection \<open>Example environments\<close>

text \<open>
  A table of three rows, one of them without a vector, and an environment whose
  services answer as given: what the classifier says, what the rewriting call does,
  what the links route does, and the rows of the table \<^verbatim>\<open>bents\<close>.
\<close>

definition example_rows :: "row list" where
  "example_rows =
     [\<lparr>row_id = ''1'', row_text = ''Hide glue creeps.'', row_title = ''Glue types'',
       row_url = ''https://example.com/a'', row_chunk_id = ''a-1'', row_vector = Some [0, 1]\<rparr>,
      \<lparr>row_id = ''2'', row_text = ''Not indexed yet.'', row_title = ''Draft'',
       row_url = ''https://example.com/b'', row_chunk_id = ''b-1'', row_vector = None\<rparr>,
      \<lparr>row_id = ''3'', row_text = ''Size end grain first.'', row_title = ''End grain'',
       row_url = ''https://example.com/c'', row_chunk_id = ''c-1'', row_vector = Some [1, 0]\<rparr>]"

text \<open>
  An instance of the distance operator: the cosine distance, which is not a number when
  one of the two vectors is zero.
\<close>

definition cosine_distance :: "real list \<Rightarrow> real list \<Rightarrow> number" where
  "cosine_distance v q =
     (let n = sum_list (map (\<lambda>x. x * x) v) * sum_list (map (\<lambda>x. x * x) q)
      in if n = 0 then NaN else Num (1 - sum_list (map2 (\<lambda>x y. x * y) v q) / sqrt n))"

definition zero_vector_rows :: "row list" where
  "zero_vector_rows =
     \<lparr>row_id = ''4'', row_text = ''Placeholder.'', row_title = ''Empty'',
      row_url = ''https://example.com/d'', row_chunk_id = ''d-1'', row_vector = Some [0, 0]\<rparr> #
     example_rows"

definition example_env ::
  "string option \<Rightarrow> thrown + string option \<Rightarrow> thrown + links_response \<Rightarrow> row list \<Rightarrow> env" where
  "example_env classified rewritten links rows =
     \<lparr>LANGSMITH_API_KEY = Some ''key'',
      LANGSMITH_PROJECT = None,
      LANGSMITH_ENDPOINT = None,
      completions_create = (\<lambda>req.
        if temperature req = None then Inr (Some ''An answer.'')
        else (case messages req of
                [(r, c)] \<Rightarrow> if prefix ''Given'' c then Inr classified else rewritten
              | other \<Rightarrow> Inl NonError)),
      embed = (\<lambda>v. Inr [1, 0]),
      db_error = (\<lambda>q t k. None),
      db_table = (\<lambda>t. if t = ''bents'' then rows else []),
      db_distance = cosine_distance,
      float_round = (\<lambda>x. x),
      fetch_links = (\<lambda>c q. links),
      getSettings = (\<lambda>n t. None),
      streamText = (\<lambda>r. None)\<rparr>"

definition links_ok :: "thrown + links_response" where
  "links_ok = Inr \<lparr>status = 200, json = Inr \<lparr>videoReferences = None, relatedProducts = None\<rparr>\<rparr>"

definition hi_there :: "ChatHistory list" where
  "hi_there = [\<lparr>role = ''user'', content = ''hi there''\<rparr>]"

definition six_messages :: "ChatHistory list" where
  "six_messages =
     [\<lparr>role = ''user'', content = ''my shop is in a garage''\<rparr>,
      \<lparr>role = ''assistant'', content = ''noted''\<rparr>,
      \<lparr>role = ''user'', content = ''I own a table saw''\<rparr>,
      \<lparr>role = ''assistant'', content = ''good''\<rparr>,
      \<lparr>role = ''user'', content = ''and a planer''\<rparr>,
      \<lparr>role = ''user'', content = ''what should I build''\<rparr>]"

text \<open>The documents found for the example table, and results of example runs.\<close>

definition example_docs :: "Document list" where
  "example_docs =
     [\<lparr>doc_id = ''3'', doc_text = ''Size end grain first.'', doc_title = ''End grain'',
       doc_url = ''https://example.com/c'', doc_chunk_id = ''c-1'', similarity_score = Num 1\<rparr>,
      \<lparr>doc_id = ''1'', doc_text = ''Hide glue creeps.'', doc_title = ''Glue types'',
       doc_url = ''https://example.com/a'', doc_chunk_id = ''a-1'', similarity_score = Num 0\<rparr>]"

definition zero_vector_doc :: Document where
  "zero_vector_doc =
     \<lparr>doc_id = ''4'', doc_text = ''Placeholder.'', doc_title = ''Empty'',
      doc_url = ''https://example.com/d'', doc_chunk_id = ''d-1'', similarity_score = NaN\<rparr>"

definition what_glue :: "ChatHistory list" where
  "what_glue = [\<lparr>role = ''user'', content = ''what glue''\<rparr>]"

definition chat_result :: "string \<Rightarrow> PipelineResponse" where
  "chat_result q =
     \<lparr>text' = ''An answer.'', type = ''chat'',
      metadata = \<lparr>input = q, output' = ''An answer.'', contextCount = 2, rewrittenQuery = q,
                  responseType = ''chat''\<rparr>\<rparr>"

definition greeting_result :: PipelineResponse where
  "greeting_result =
     \<lparr>text' = ''An answer.'', type = ''greeting'',
      metadata = \<lparr>input = ''hi there'', output' = ''An answer.'', contextCount = 0,
                  rewrittenQuery = [], responseType = ''greeting''\<rparr>\<rparr>"

definition empty_query_result :: PipelineResponse where
  "empty_query_result =
     \<lparr>text' = ''An answer.'', type = ''not-relevant'',
      metadata = \<lparr>input = [], output' = ''An answer.'', contextCount = 0, rewrittenQuery = [],
                  responseType = ''not-relevant''\<rparr>\<rparr>"

section \<open>Properties\<close>

subsection \<open>The effect combinators\<close>

lemma bind_io_Inl [simp]: "bind_io (l, Inl err) f = (l, Inl err)"
  by (simp add: bind_io_def)

lemma bind_io_Inr [simp]: "bind_io (l, Inr x) f = (l @ fst (f x), snd (f x))"
  by (simp add: bind_io_def split: prod.splits)

lemma catch_io_Inl [simp]: "catch_io (l, Inl err) h = (l @ fst (h err), snd (h err))"
  by (simp add: catch_io_def split: prod.splits)

lemma catch_io_Inr [simp]: "catch_io (l, Inr x) h = (l, Inr x)"
  by (simp add: catch_io_def)

subsection \<open>The classification call and the branch taken\<close>

lemma checkRelevance_log: "fst (checkRelevance e q ms) = [Completion (relevance_request q ms)]"
  by (cases "completions_create e (relevance_request q ms)")
     (simp_all add: checkRelevance_def chat_completions_create_def call_io_def return_io_def)

lemma pipeline_branch:
  assumes "snd (checkRelevance e q ms) = Inr lab"
  shows "pipeline e ms q =
     (Completion (relevance_request q ms) #
        fst (if lab = ''GREETING'' then greeting_branch e q
             else if lab = ''INAPPROPRIATE'' then inappropriate_branch q
             else if lab = ''NOT_RELEVANT'' then not_relevant_branch e q
             else relevant_branch e ms q),
      snd (if lab = ''GREETING'' then greeting_branch e q
             else if lab = ''INAPPROPRIATE'' then inappropriate_branch q
             else if lab = ''NOT_RELEVANT'' then not_relevant_branch e q
             else relevant_branch e ms q))"
proof -
  have "checkRelevance e q ms = ([Completion (relevance_request q ms)], Inr lab)"
    using assms checkRelevance_log [of e q ms] by (cases "checkRelevance e q ms") simp
  then show ?thesis
    by (simp add: pipeline_def)
qed

lemma greeting_branch_log: "fst (greeting_branch e q) = [Completion (greeting_request q)]"
  by (cases "completions_create e (greeting_request q)")
     (simp_all add: greeting_branch_def chat_completions_create_def call_io_def return_io_def
        Let_def)

lemma not_relevant_branch_log:
  "fst (not_relevant_branch e q) = [Completion (not_relevant_request q)]"
  by (cases "completions_create e (not_relevant_request q)")
     (simp_all add: not_relevant_branch_def chat_completions_create_def call_io_def
        return_io_def Let_def)

text \<open>What the classifier of an example environment returns.\<close>

lemma example_checkRelevance:
  "snd (checkRelevance (example_env c rw lk rows) q ms) =
     Inr (or_else (map_option (\<lambda>c. toUpperCase (trim c)) c) ''NOT_RELEVANT'')"
  by (simp add: checkRelevance_def chat_completions_create_def call_io_def return_io_def
      example_env_def relevance_request_def relevancePrompt_def)

lemmas string_eval = or_else_def truthy_def toUpperCase_def toUpperChar_def trim_def
  isWhiteSpace_def Let_def char_of_eq_iff

subsection \<open>Facts about the stages\<close>

lemma rewriteQuery_eq:
  "rewriteQuery e q ms =
     ([Completion (rewrite_request q ms)],
      Inr (case completions_create e (rewrite_request q ms) of
             Inl err \<Rightarrow> q
           | Inr result \<Rightarrow>
               or_else (map_option (\<lambda>c. trim (replace ''Rewritten query:'' [] c)) result) q))"
  by (cases "completions_create e (rewrite_request q ms)")
     (simp_all add: rewriteQuery_def chat_completions_create_def call_io_def return_io_def)

lemma searchNeonDb_eq:
  "searchNeonDb e q t k =
     (case db_error e q t k of
        Some err \<Rightarrow>
          ([Query q t k,
            ConsoleError (''[DB Search] Error: '' @ error_message err ''Unknown error'')], Inl err)
      | None \<Rightarrow> ([Query q t k], Inr (run_query e q t k)))"
  by (simp add: searchNeonDb_def client_query_def call_io_def split: option.splits)

lemma candidates_set:
  "rv \<in> set (candidates rows) \<longleftrightarrow> fst rv \<in> set rows \<and> row_vector (fst rv) = Some (snd rv)"
  by (cases rv) (auto simp: candidates_def split: option.splits)

lemma candidates_all_null:
  "(\<forall>r\<in>set rows. row_vector r = None) \<Longrightarrow> candidates rows = []"
  by (induction rows) (simp_all add: candidates_def)

lemma matching_rows_sorted:
  "sorted (map (\<lambda>rv. db_distance e (snd rv) q) (matching_rows e q t k))"
proof -
  have "sorted (map (\<lambda>rv. db_distance e (snd rv) q)
          (sort_key (\<lambda>rv. db_distance e (snd rv) q) (candidates (db_table e t))))"
    by (rule sorted_sort_key)
  then show ?thesis
    unfolding matching_rows_def sorted_map by (rule sorted_wrt_take)
qed

lemma run_query_scores:
  "map similarity_score (run_query e q t k) =
     map (one_minus (float_round e))
       (map (\<lambda>rv. db_distance e (snd rv) q) (matching_rows e q t k))"
  by (simp add: run_query_def select_row_def comp_def)

lemma sorted_numbers_split:
  "sorted ds \<Longrightarrow> \<exists>xs m. ds = map Num xs @ replicate m NaN \<and> sorted xs"
proof (induction ds)
  case Nil
  show ?case by (rule exI [of _ "[]"], rule exI [of _ 0]) simp
next
  case (Cons d ds)
  then obtain xs m where ds: "ds = map Num xs @ replicate m NaN" and s: "sorted xs"
    by auto
  show ?case
  proof (cases d)
    case (Num x)
    have "\<forall>y\<in>set xs. x \<le> y"
    proof
      fix y assume "y \<in> set xs"
      then have "Num y \<in> set ds" using ds by simp
      then have "d \<le> Num y" using Cons.prems by simp
      then show "x \<le> y" using Num by (simp add: less_eq_number_def)
    qed
    then have "d # ds = map Num (x # xs) @ replicate m NaN \<and> sorted (x # xs)"
      using Num ds s by simp
    then show ?thesis by blast
  next
    case NaN
    have "xs = []"
    proof (cases xs)
      case (Cons y ys)
      then have "d \<le> Num y" using Cons.prems ds by simp
      then show ?thesis using NaN by (simp add: less_eq_number_def)
    qed simp
    then have "d # ds = map Num [] @ replicate (Suc m) NaN \<and> sorted ([] :: real list)"
      using NaN ds by simp
    then show ?thesis by blast
  qed
qed

lemma scores_split:
  assumes "mono rnd" "sorted ds"
  shows "\<exists>xs m. map (one_minus rnd) ds = map Num xs @ replicate m NaN \<and> sorted (rev xs)"
proof -
  obtain ys m where ds: "ds = map Num ys @ replicate m NaN" and s: "sorted ys"
    using sorted_numbers_split [OF assms(2)] by blast
  have "sorted_wrt (\<lambda>a b. rnd (1 - b) \<le> rnd (1 - a)) ys"
    using s by (rule sorted_wrt_mono_rel [rotated]) (simp add: monoD [OF assms(1)])
  then have "sorted_wrt (\<lambda>a b. b \<le> a) (map (\<lambda>y. rnd (1 - y)) ys)"
    by (simp only: sorted_wrt_map)
  then have "sorted (rev (map (\<lambda>y. rnd (1 - y)) ys))"
    by (simp only: sorted_wrt_rev)
  moreover have "map (one_minus rnd) ds = map Num (map (\<lambda>y. rnd (1 - y)) ys) @ replicate m NaN"
    by (simp add: ds comp_def)
  ultimately show ?thesis by blast
qed

lemma js_ge_numbers: "sorted_wrt js_ge (map Num xs) \<longleftrightarrow> sorted (rev xs)"
  by (simp add: sorted_wrt_map sorted_wrt_rev)

lemma scores_non_increasing:
  assumes "mono rnd" "sorted ds" "NaN \<notin> set (map (one_minus rnd) ds)"
  shows "sorted_wrt js_ge (map (one_minus rnd) ds)"
proof -
  obtain xs m where e: "map (one_minus rnd) ds = map Num xs @ replicate m NaN"
    and s: "sorted (rev xs)"
    using scores_split [OF assms(1,2)] by blast
  have "m = 0" using assms(3) e by (cases m) auto
  then show ?thesis using e s by (simp add: js_ge_numbers)
qed

lemma greeting_branch_result:
  "snd (greeting_branch e q) = Inr r \<Longrightarrow>
     \<exists>a. r = \<lparr>text' = a, type = ''greeting'',
              metadata = \<lparr>input = q, output' = a, contextCount = 0, rewrittenQuery = [],
                          responseType = ''greeting''\<rparr>\<rparr>"
  by (cases "completions_create e (greeting_request q)")
     (auto simp: greeting_branch_def chat_completions_create_def call_io_def return_io_def Let_def)

lemma not_relevant_branch_result:
  "snd (not_relevant_branch e q) = Inr r \<Longrightarrow>
     \<exists>a. r = \<lparr>text' = a, type = ''not-relevant'',
              metadata = \<lparr>input = q, output' = a, contextCount = 0, rewrittenQuery = [],
                          responseType = ''not-relevant''\<rparr>\<rparr>"
  by (cases "completions_create e (not_relevant_request q)")
     (auto simp: not_relevant_branch_def chat_completions_create_def call_io_def return_io_def
        Let_def)

lemma inappropriate_branch_result:
  "inappropriate_branch q =
     ([], Inr \<lparr>text' = inappropriateAnswer, type = ''inappropriate'',
               metadata = \<lparr>input = q, output' = inappropriateAnswer, contextCount = 0,
                           rewrittenQuery = [], responseType = ''inappropriate''\<rparr>\<rparr>)"
  by (simp add: inappropriate_branch_def return_io_def Let_def)

lemma rewriteQuery_rewritten_of:
  "rewriteQuery e q ms = ([Completion (rewrite_request q ms)], Inr (rewritten_of e q ms))"
  by (simp add: rewriteQuery_eq rewritten_of_def)

lemma links_request_cases:
  "links_request e c rq = ([Fetch c rq], Inr ()) \<or> (\<exists>err. links_request e c rq = ([Fetch c rq], Inl err))"
  by (cases "fetch_links e c rq"; cases "json (projr (fetch_links e c rq))")
     (auto simp: links_request_def call_io_def return_io_def)

lemma relevant_branch_result:
  assumes "snd (relevant_branch e ms q) = Inr r"
  shows "\<exists>a emb docs.
     embed e (rewritten_of e q ms) = Inr emb \<and>
     snd (searchNeonDb e emb ''bents'' 10) = Inr docs \<and>
     r = \<lparr>text' = a, type = ''chat'',
          metadata = \<lparr>input = q, output' = a, contextCount = length docs,
                      rewrittenQuery = rewritten_of e q ms, responseType = ''chat''\<rparr>\<rparr>"
proof -
  let ?rq = "rewritten_of e q ms"
  obtain emb where emb: "embed e ?rq = Inr emb"
    using assms
    by (cases "embed e ?rq")
       (auto simp: relevant_branch_def rewriteQuery_rewritten_of embed_value_def call_io_def)
  obtain docs where docs: "searchNeonDb e emb ''bents'' 10 = ([Query emb ''bents'' 10], Inr docs)"
    using assms emb
    by (cases "db_error e emb ''bents'' 10")
       (auto simp: relevant_branch_def rewriteQuery_rewritten_of embed_value_def call_io_def
          searchNeonDb_eq)
  let ?links = "if contextTexts docs \<noteq> [] then links_request e (contextTexts docs) ?rq
                else return_io ()"
  obtain l where links: "?links = (l, Inr ())"
    using assms emb docs links_request_cases [of e "contextTexts docs" ?rq]
    by (cases "contextTexts docs = []")
       (auto simp: relevant_branch_def rewriteQuery_rewritten_of embed_value_def call_io_def
          return_io_def)
  have "relevant_branch e ms q =
      bind_io ([Completion (rewrite_request q ms), Embed ?rq, Query emb ''bents'' 10] @ l, Inr ())
        (\<lambda>u. bind_io (chat_completions_create e (generation_request ms (contextTexts docs) q))
          (\<lambda>completion. let answer = or_else completion []
             in return_io
                  \<lparr>text' = answer, type = ''chat'',
                   metadata =
                     \<lparr>input = q, output' = answer, contextCount = length docs,
                      rewrittenQuery = ?rq, responseType = ''chat''\<rparr>\<rparr>))"
    using emb docs links
    by (simp add: relevant_branch_def rewriteQuery_rewritten_of embed_value_def call_io_def)
  with assms show ?thesis
    using emb docs
    by (cases "completions_create e (generation_request ms (contextTexts docs) q)")
       (auto simp: chat_completions_create_def call_io_def return_io_def Let_def)
qed

lemma replace_leading_label:
  "replace ''Rewritten query:'' [] (''Rewritten query:'' @ rest) = rest"
  by simp


lemma context_block_not_empty: "context_block d \<noteq> []"
  by (simp add: context_block_def)

lemma join_empty_iff: "(\<forall>x\<in>set xs. x \<noteq> []) \<Longrightarrow> join sep xs = [] \<longleftrightarrow> xs = []"
  by (induction sep xs rule: join.induct) simp_all

lemma contextTexts_empty_iff: "contextTexts docs = [] \<longleftrightarrow> docs = []"
  unfolding contextTexts_def
  by (subst join_empty_iff) (auto simp: context_block_not_empty)

lemma example_completion_rewrite:
  "completions_create (example_env c rw lk rows) (rewrite_request q ms) = rw"
  by (simp add: example_env_def rewrite_request_def rewritePrompt_def)

lemma example_completion_other:
  "temperature req = None \<Longrightarrow>
     completions_create (example_env c rw lk rows) req = Inr (Some ''An answer.'')"
  by (simp add: example_env_def)

lemma example_search:
  "searchNeonDb (example_env c rw lk example_rows) [1, 0] ''bents'' 10 =
     ([Query [1, 0] ''bents'' 10], Inr example_docs)"
  by (simp add: searchNeonDb_eq run_query_def matching_rows_def candidates_def example_env_def
      example_rows_def select_row_def cosine_distance_def less_eq_number_def example_docs_def)


lemma slice_last_idem: "slice_last n (slice_last n xs) = slice_last n xs"
  by (simp add: slice_last_def)

lemma slice_last_length: "length (slice_last n xs) \<le> n"
  by (simp add: slice_last_def)

lemma slice_last_short: "length xs \<le> n \<Longrightarrow> slice_last n xs = xs"
  by (simp add: slice_last_def)

lemma length_join_drop:
  "length (join sep (drop k xs)) \<le> length (join sep xs)"
proof (induction sep xs arbitrary: k rule: join.induct)
  case (3 sep x y ys)
  show ?case
  proof (cases k)
    case 0
    then show ?thesis by simp
  next
    case (Suc j)
    with "3.IH" [of j] show ?thesis by simp
  qed
next
  case (2 sep x)
  show ?case by (cases k) simp_all
qed simp

lemma length_join_drop_less:
  assumes "0 < k" "k \<le> length xs" "\<forall>x\<in>set xs. x \<noteq> []"
  shows "length (join sep (drop k xs)) < length (join sep xs)"
proof (cases xs)
  case Nil
  with assms show ?thesis by simp
next
  case (Cons x ys)
  obtain j where k: "k = Suc j" using assms(1) by (cases k) auto
  have x: "0 < length x" using assms(3) Cons by simp
  have "length (join sep (drop j ys)) \<le> length (join sep ys)"
    by (rule length_join_drop)
  moreover have "length (join sep ys) < length (join sep (x # ys))"
    using x by (cases ys) simp_all
  ultimately show ?thesis
    by (simp add: Cons k)
qed

lemma JSON_stringify_message_not_empty: "JSON_stringify_message m \<noteq> []"
  by (simp add: JSON_stringify_message_def)

lemma JSON_stringify_window_shorter:
  assumes "n < length h"
  shows "length (JSON_stringify (slice_last n h)) < length (JSON_stringify h)"
proof -
  have "length (join '','' (drop (length h - n) (map JSON_stringify_message h)))
      < length (join '','' (map JSON_stringify_message h))"
    using assms by (intro length_join_drop_less) (auto simp: JSON_stringify_message_not_empty)
  then show ?thesis
    by (simp add: JSON_stringify_def slice_last_def drop_map)
qed

lemmas json_eval = JSON_stringify_def JSON_stringify_message_def QuoteJSONString_def
  QuoteJSONChar_def hexDigit_def dq_def nl_def apos_def Let_def

lemma pipeline_log_starts:
  "\<exists>rest. fst (pipeline e ms q) = Completion (relevance_request q ms) # rest"
proof (cases "snd (checkRelevance e q ms)")
  case (Inl err)
  then have "checkRelevance e q ms = ([Completion (relevance_request q ms)], Inl err)"
    using checkRelevance_log [of e q ms] by (cases "checkRelevance e q ms") simp
  then show ?thesis by (simp add: pipeline_def)
next
  case (Inr lab)
  then show ?thesis by (simp add: pipeline_branch)
qed

lemma POST_messages:
  assumes "truthy (LANGSMITH_API_KEY e)"
  shows "prefix [Completion (relevance_request (lastUserMessage_of ms) ms)]
     (fst (POST e (Inr (Body (MessagesArray ms)))))"
proof -
  obtain rest where "fst (pipeline e ms (lastUserMessage_of ms)) =
      Completion (relevance_request (lastUserMessage_of ms) ms) # rest"
    using pipeline_log_starts by blast
  then show ?thesis
    using assms
    by (cases "pipeline e ms (lastUserMessage_of ms)";
        cases "snd (pipeline e ms (lastUserMessage_of ms))")
       (auto simp: POST_def split: prod.splits)
qed

lemma example_relevant_prefix:
  "relevant_branch (example_env c (Inl NonError) lk example_rows) ms q =
     bind_io
       ([Completion (rewrite_request q ms), Embed q, Query [1, 0] ''bents'' 10], Inr ())
       (\<lambda>u. bind_io (links_request (example_env c (Inl NonError) lk example_rows)
                       (contextTexts example_docs) q)
         (\<lambda>u. bind_io
            (chat_completions_create (example_env c (Inl NonError) lk example_rows)
               (generation_request ms (contextTexts example_docs) q))
            (\<lambda>completion. let answer = or_else completion []
               in return_io
                    \<lparr>text' = answer, type = ''chat'',
                     metadata =
                       \<lparr>input = q, output' = answer, contextCount = 2,
                        rewrittenQuery = q, responseType = ''chat''\<rparr>\<rparr>)))"
proof -
  let ?E = "example_env c (Inl NonError) lk example_rows"
  have rq: "rewritten_of ?E q ms = q"
    by (simp add: rewritten_of_def example_completion_rewrite)
  have emb: "embed ?E q = Inr [1, 0]"
    by (simp add: example_env_def)
  have s: "searchNeonDb ?E [1, 0] ''bents'' 10 = ([Query [1, 0] ''bents'' 10], Inr example_docs)"
    by (simp add: example_search)
  have ne: "contextTexts example_docs \<noteq> []"
    by (simp add: contextTexts_empty_iff example_docs_def)
  have len: "length example_docs = 2"
    by (simp add: example_docs_def)
  show ?thesis
    by (simp add: relevant_branch_def rewriteQuery_rewritten_of rq embed_value_def call_io_def
        emb s ne len)
qed

subsection \<open>The short-circuit branches\<close>

text \<open>
  C6. When the classifier's label is GREETING, INAPPROPRIATE or NOT_RELEVANT, a run of
  the pipeline makes no embedding call and no database query. On INAPPROPRIATE it makes
  no completion call beyond the classification and returns the fixed apology; on
  GREETING and on NOT_RELEVANT it makes exactly one more completion call.
\<close>

theorem short_circuit_calls:
  assumes "snd (checkRelevance e q ms) = Inr lab"
    and "lab = ''GREETING'' \<or> lab = ''INAPPROPRIATE'' \<or> lab = ''NOT_RELEVANT''"
  shows "retrieval_calls (fst (pipeline e ms q)) = 0 \<and>
     (lab = ''INAPPROPRIATE'' \<longrightarrow>
        completion_calls (fst (pipeline e ms q)) =
          completion_calls (fst (checkRelevance e q ms)) \<and>
        (\<exists>r. snd (pipeline e ms q) = Inr r \<and> text' r = inappropriateAnswer)) \<and>
     (lab = ''GREETING'' \<or> lab = ''NOT_RELEVANT'' \<longrightarrow>
        completion_calls (fst (pipeline e ms q)) =
          completion_calls (fst (checkRelevance e q ms)) + 1)"
  using assms(2)
  by (auto simp: pipeline_branch [OF assms(1)] checkRelevance_log greeting_branch_log
      not_relevant_branch_log retrieval_calls_def completion_calls_def inappropriate_branch_def
      return_io_def Let_def)

theorem short_circuit_calls_witness:
  "snd (checkRelevance (example_env (Some ''inappropriate'') (Inl NonError) links_ok example_rows)
         ''hi there'' hi_there) = Inr ''INAPPROPRIATE'' \<and>
   retrieval_calls
     (fst (pipeline (example_env (Some ''inappropriate'') (Inl NonError) links_ok example_rows)
            hi_there ''hi there'')) = 0 \<and>
   completion_calls
     (fst (pipeline (example_env (Some ''inappropriate'') (Inl NonError) links_ok example_rows)
            hi_there ''hi there'')) = 1 \<and>
   snd (checkRelevance (example_env (Some ''Greeting '') (Inl NonError) links_ok example_rows)
         ''hi there'' hi_there) = Inr ''GREETING'' \<and>
   completion_calls
     (fst (pipeline (example_env (Some ''Greeting '') (Inl NonError) links_ok example_rows)
            hi_there ''hi there'')) = 2"
proof -
  have a: "snd (checkRelevance (example_env (Some ''inappropriate'') (Inl NonError) links_ok
      example_rows) ''hi there'' hi_there) = Inr ''INAPPROPRIATE''"
    by (simp add: example_checkRelevance string_eval)
  have b: "snd (checkRelevance (example_env (Some ''Greeting '') (Inl NonError) links_ok
      example_rows) ''hi there'' hi_there) = Inr ''GREETING''"
    by (simp add: example_checkRelevance string_eval)
  show ?thesis
    using a b short_circuit_calls [OF a] short_circuit_calls [OF b]
    by (simp add: checkRelevance_log completion_calls_def)
qed

subsection \<open>Query rewriting\<close>



subsection \<open>Context assembly\<close>

text \<open>
  C8. The context string is a function of the documents alone: nothing for no document,
  the block of the document for one, and for more the blocks in input order with a blank
  line between them; a block is the three lines Source, Content and URL. The context is
  empty exactly when there is no document, and then the relevant branch still makes the
  generation call (with no call to the links route) and returns the chat result.
\<close>

theorem contextTexts_blocks:
  "contextTexts [] = [] \<and>
   contextTexts [d] = context_block d \<and>
   contextTexts (d # d' # ds) = context_block d @ [CHR 0x0A, CHR 0x0A] @ contextTexts (d' # ds) \<and>
   context_block d =
     ''Source: '' @ doc_title d @ [CHR 0x0A] @ ''Content: '' @ doc_text d @ [CHR 0x0A] @
     ''URL: '' @ doc_url d \<and>
   (contextTexts docs = [] \<longleftrightarrow> docs = []) \<and>
   (embed e (rewritten_of e q ms) = Inr emb \<and>
    snd (searchNeonDb e emb ''bents'' 10) = Inr [] \<longrightarrow>
      fst (relevant_branch e ms q) =
        [Completion (rewrite_request q ms), Embed (rewritten_of e q ms), Query emb ''bents'' 10,
         Completion (generation_request ms [] q)] \<and>
      (\<forall>c. completions_create e (generation_request ms [] q) = Inr c \<longrightarrow>
         snd (relevant_branch e ms q) =
           Inr \<lparr>text' = or_else c [], type = ''chat'',
                metadata = \<lparr>input = q, output' = or_else c [], contextCount = 0,
                            rewrittenQuery = rewritten_of e q ms, responseType = ''chat''\<rparr>\<rparr>))"
proof (intro conjI impI allI)
  show "contextTexts [] = []" "contextTexts [d] = context_block d"
    by (simp_all add: contextTexts_def)
  show "contextTexts (d # d' # ds) = context_block d @ [CHR 0x0A, CHR 0x0A] @ contextTexts (d' # ds)"
    by (simp add: contextTexts_def nl_def)
  show "context_block d =
     ''Source: '' @ doc_title d @ [CHR 0x0A] @ ''Content: '' @ doc_text d @ [CHR 0x0A] @
     ''URL: '' @ doc_url d"
    by (simp add: context_block_def nl_def)
  show "contextTexts docs = [] \<longleftrightarrow> docs = []"
    by (rule contextTexts_empty_iff)
next
  assume a: "embed e (rewritten_of e q ms) = Inr emb \<and>
    snd (searchNeonDb e emb ''bents'' 10) = Inr []"
  then have s: "searchNeonDb e emb ''bents'' 10 = ([Query emb ''bents'' 10], Inr [])"
    by (auto simp: searchNeonDb_eq split: option.splits)
  have rb: "relevant_branch e ms q =
      bind_io ([Completion (rewrite_request q ms), Embed (rewritten_of e q ms),
                Query emb ''bents'' 10], Inr ())
        (\<lambda>u. bind_io (chat_completions_create e (generation_request ms [] q))
          (\<lambda>completion. let answer = or_else completion []
             in return_io
                  \<lparr>text' = answer, type = ''chat'',
                   metadata =
                     \<lparr>input = q, output' = answer, contextCount = 0,
                      rewrittenQuery = rewritten_of e q ms, responseType = ''chat''\<rparr>\<rparr>))"
    using a s
    by (simp add: relevant_branch_def rewriteQuery_rewritten_of embed_value_def call_io_def
        return_io_def contextTexts_def)
  show "fst (relevant_branch e ms q) =
        [Completion (rewrite_request q ms), Embed (rewritten_of e q ms), Query emb ''bents'' 10,
         Completion (generation_request ms [] q)]"
    unfolding rb
    by (cases "completions_create e (generation_request ms [] q)")
       (simp_all add: chat_completions_create_def call_io_def return_io_def Let_def)
  fix c
  assume "completions_create e (generation_request ms [] q) = Inr c"
  then show "snd (relevant_branch e ms q) =
           Inr \<lparr>text' = or_else c [], type = ''chat'',
                metadata = \<lparr>input = q, output' = or_else c [], contextCount = 0,
                            rewrittenQuery = rewritten_of e q ms, responseType = ''chat''\<rparr>\<rparr>"
    unfolding rb
    by (simp add: chat_completions_create_def call_io_def return_io_def Let_def)
qed

theorem contextTexts_blocks_witness:
  "embed (example_env (Some ''RELEVANT'') (Inl NonError) links_ok [])
     (rewritten_of (example_env (Some ''RELEVANT'') (Inl NonError) links_ok [])
        ''what glue'' hi_there) = Inr [1, 0] \<and>
   snd (searchNeonDb (example_env (Some ''RELEVANT'') (Inl NonError) links_ok [])
     [1, 0] ''bents'' 10) = Inr [] \<and>
   completions_create (example_env (Some ''RELEVANT'') (Inl NonError) links_ok [])
     (generation_request hi_there [] ''what glue'') = Inr (Some ''An answer.'') \<and>
   fst (relevant_branch (example_env (Some ''RELEVANT'') (Inl NonError) links_ok [])
     hi_there ''what glue'') =
     [Completion (rewrite_request ''what glue'' hi_there), Embed ''what glue'',
      Query [1, 0] ''bents'' 10, Completion (generation_request hi_there [] ''what glue'')] \<and>
   snd (relevant_branch (example_env (Some ''RELEVANT'') (Inl NonError) links_ok [])
     hi_there ''what glue'') =
     Inr \<lparr>text' = ''An answer.'', type = ''chat'',
          metadata = \<lparr>input = ''what glue'', output' = ''An answer.'', contextCount = 0,
                      rewrittenQuery = ''what glue'', responseType = ''chat''\<rparr>\<rparr>"
proof -
  let ?E = "example_env (Some ''RELEVANT'') (Inl NonError) links_ok []"
  have rq: "rewritten_of ?E ''what glue'' hi_there = ''what glue''"
    by (simp add: rewritten_of_def example_completion_rewrite)
  have emb: "embed ?E (rewritten_of ?E ''what glue'' hi_there) = Inr [1, 0]"
    by (simp add: example_env_def)
  have s: "snd (searchNeonDb ?E [1, 0] ''bents'' 10) = Inr []"
    by (simp add: searchNeonDb_eq run_query_def matching_rows_def candidates_def example_env_def)
  have g: "completions_create ?E (generation_request hi_there [] ''what glue'') =
      Inr (Some ''An answer.'')"
    by (simp add: example_completion_other generation_request_def)
  from contextTexts_blocks [of "example_docs ! 0" "example_docs ! 1" "[]" "[]" ?E "''what glue''" hi_there "[1, 0]"]
    emb s g rq
  show ?thesis
    by (simp add: or_else_def truthy_def)
qed

subsection \<open>Vector search\<close>

text \<open>
  C9, as stated, fails: with a row whose vector is zero the distance is not a number,
  the row comes last with the score \<open>NaN\<close>, and the scores of the result are not in
  non-increasing order.
\<close>

theorem zero_vector_breaks_score_order:
  "snd (searchNeonDb (example_env None (Inl NonError) links_ok zero_vector_rows)
         [1, 0] ''bents'' 10) = Inr (example_docs @ [zero_vector_doc]) \<and>
   map similarity_score (example_docs @ [zero_vector_doc]) = [Num 1, Num 0, NaN] \<and>
   \<not> sorted_wrt js_ge (map similarity_score (example_docs @ [zero_vector_doc]))"
  by (simp add: searchNeonDb_eq run_query_def matching_rows_def candidates_def example_env_def
      example_rows_def zero_vector_rows_def select_row_def cosine_distance_def
      less_eq_number_def example_docs_def zero_vector_doc_def)

text \<open>
  C9, amended. A search that returns gives at most \<open>topK\<close> documents (the pipeline asks
  for 10): the rows with a non-null vector in the database's ascending order of
  distance, in which a distance that is not a number comes last, cut at \<open>topK\<close>. With a
  monotone rounding, the scores \<open>1 - distance\<close> are numbers in non-increasing order
  followed by \<open>NaN\<close> for the rows whose distance is not a number; when no score is \<open>NaN\<close>
  the scores are in non-increasing order. When the query does not fail and no row has a
  vector, the result is the empty list and not an error.
\<close>

theorem searchNeonDb_result:
  "(snd (searchNeonDb e q t k) = Inr docs \<longrightarrow>
      length docs \<le> k \<and>
      docs = map (select_row e q) (matching_rows e q t k) \<and>
      sorted (map (\<lambda>rv. db_distance e (snd rv) q) (matching_rows e q t k)) \<and>
      (\<forall>rv\<in>set (matching_rows e q t k).
         fst rv \<in> set (db_table e t) \<and> row_vector (fst rv) = Some (snd rv)) \<and>
      (mono (float_round e) \<longrightarrow>
         (\<exists>xs m. map similarity_score docs = map Num xs @ replicate m NaN \<and> sorted (rev xs)) \<and>
         (NaN \<notin> set (map similarity_score docs) \<longrightarrow>
            sorted_wrt js_ge (map similarity_score docs)))) \<and>
   (db_error e q t k = None \<and> (\<forall>r\<in>set (db_table e t). row_vector r = None) \<longrightarrow>
      searchNeonDb e q t k = ([Query q t k], Inr []))"
proof (intro conjI impI)
  assume "db_error e q t k = None \<and> (\<forall>r\<in>set (db_table e t). row_vector r = None)"
  then show "searchNeonDb e q t k = ([Query q t k], Inr [])"
    by (simp add: searchNeonDb_eq run_query_def matching_rows_def candidates_all_null)
next
  assume r: "snd (searchNeonDb e q t k) = Inr docs"
  then have docs: "docs = run_query e q t k"
    by (auto simp: searchNeonDb_eq split: option.splits)
  show "docs = map (select_row e q) (matching_rows e q t k)"
    by (simp add: docs run_query_def)
  show "length docs \<le> k"
    by (simp add: docs run_query_def matching_rows_def)
  show "sorted (map (\<lambda>rv. db_distance e (snd rv) q) (matching_rows e q t k))"
    by (rule matching_rows_sorted)
  show "\<forall>rv\<in>set (matching_rows e q t k).
         fst rv \<in> set (db_table e t) \<and> row_vector (fst rv) = Some (snd rv)"
  proof
    fix rv assume "rv \<in> set (matching_rows e q t k)"
    then have "rv \<in> set (candidates (db_table e t))"
      by (auto simp: matching_rows_def dest: in_set_takeD)
    then show "fst rv \<in> set (db_table e t) \<and> row_vector (fst rv) = Some (snd rv)"
      by (simp add: candidates_set)
  qed
  show "\<exists>xs m. map similarity_score docs = map Num xs @ replicate m NaN \<and> sorted (rev xs)"
    if "mono (float_round e)"
    unfolding docs run_query_scores using that matching_rows_sorted by (rule scores_split)
  show "sorted_wrt js_ge (map similarity_score docs)"
    if "mono (float_round e)" "NaN \<notin> set (map similarity_score docs)"
    using that(2) unfolding docs run_query_scores
    by (rule scores_non_increasing [OF that(1) matching_rows_sorted])
qed

theorem searchNeonDb_result_witness:
  "snd (searchNeonDb (example_env None (Inl NonError) links_ok example_rows) [1, 0] ''bents'' 10) =
     Inr example_docs \<and>
   mono (float_round (example_env None (Inl NonError) links_ok example_rows)) \<and>
   NaN \<notin> set (map similarity_score example_docs) \<and>
   sorted_wrt js_ge (map similarity_score example_docs) \<and>
   map (row_id \<circ> fst)
     (matching_rows (example_env None (Inl NonError) links_ok example_rows) [1, 0] ''bents'' 10) =
     [''3'', ''1''] \<and>
   snd (searchNeonDb (example_env None (Inl NonError) links_ok example_rows) [1, 0] ''bents'' 1) =
     Inr [example_docs ! 0] \<and>
   length [example_docs ! 0] \<le> 1 \<and>
   snd (searchNeonDb (example_env None (Inl NonError) links_ok zero_vector_rows)
         [1, 0] ''bents'' 10) = Inr (example_docs @ [zero_vector_doc]) \<and>
   map similarity_score (example_docs @ [zero_vector_doc]) = map Num [1, 0] @ replicate 1 NaN \<and>
   db_error (example_env None (Inl NonError) links_ok [example_rows ! 1]) [1, 0] ''bents'' 10 = None \<and>
   map row_vector (db_table (example_env None (Inl NonError) links_ok [example_rows ! 1]) ''bents'') =
     [None] \<and>
   searchNeonDb (example_env None (Inl NonError) links_ok [example_rows ! 1]) [1, 0] ''bents'' 10 =
     ([Query [1, 0] ''bents'' 10], Inr [])"
proof -
  let ?E = "example_env None (Inl NonError) links_ok example_rows"
  let ?Z = "example_env None (Inl NonError) links_ok zero_vector_rows"
  let ?N = "example_env None (Inl NonError) links_ok [example_rows ! 1]"
  have h1: "snd (searchNeonDb ?E [1, 0] ''bents'' 10) = Inr example_docs"
    by (simp add: example_search)
  have m: "mono (float_round ?E)"
    by (simp add: example_env_def mono_def)
  have n: "NaN \<notin> set (map similarity_score example_docs)"
    by (simp add: example_docs_def)
  have h2: "db_error ?N [1, 0] ''bents'' 10 = None \<and>
      (\<forall>r\<in>set (db_table ?N ''bents''). row_vector r = None)"
    by (simp add: example_env_def example_rows_def)
  have h3: "map (row_id \<circ> fst) (matching_rows ?E [1, 0] ''bents'' 10) = [''3'', ''1'']"
    by (simp add: matching_rows_def candidates_def example_env_def example_rows_def
        cosine_distance_def less_eq_number_def)
  have h4: "map row_vector (db_table ?N ''bents'') = [None]"
    by (simp add: example_env_def example_rows_def)
  have h5: "snd (searchNeonDb ?E [1, 0] ''bents'' 1) = Inr [example_docs ! 0]"
    by (simp add: searchNeonDb_eq run_query_def matching_rows_def candidates_def example_env_def
        example_rows_def select_row_def cosine_distance_def less_eq_number_def example_docs_def)
  have h6: "snd (searchNeonDb ?Z [1, 0] ''bents'' 10) = Inr (example_docs @ [zero_vector_doc])"
    by (simp add: searchNeonDb_eq run_query_def matching_rows_def candidates_def example_env_def
        example_rows_def zero_vector_rows_def select_row_def cosine_distance_def
        less_eq_number_def example_docs_def zero_vector_doc_def)
  have h7: "map similarity_score (example_docs @ [zero_vector_doc]) =
      map Num [1, 0] @ replicate 1 NaN"
    by (simp add: example_docs_def zero_vector_doc_def)
  from searchNeonDb_result [of ?E "[1, 0]" "''bents''" 10 example_docs] h1 m n
  have a: "sorted_wrt js_ge (map similarity_score example_docs)"
    by blast
  from searchNeonDb_result [of ?E "[1, 0]" "''bents''" 1 "[example_docs ! 0]"] h5
  have b: "length [example_docs ! 0] \<le> 1"
    by blast
  from searchNeonDb_result [of ?N "[1, 0]" "''bents''" 10] h2
  have c: "searchNeonDb ?N [1, 0] ''bents'' 10 = ([Query [1, 0] ''bents'' 10], Inr [])"
    by blast
  from h1 m n a h3 h5 b h6 h7 h2 h4 c show ?thesis
    by blast
qed

subsection \<open>The result record\<close>

text \<open>
  C10. Every result the pipeline returns has \<open>metadata.output = text\<close> and
  \<open>metadata.responseType = type\<close>; when the label is GREETING, INAPPROPRIATE or
  NOT_RELEVANT its \<open>contextCount\<close> is 0 and its \<open>rewrittenQuery\<close> is empty.
\<close>

theorem pipeline_result_invariant:
  assumes "snd (pipeline e ms q) = Inr r"
  shows "output' (metadata r) = text' r \<and> responseType (metadata r) = type r \<and>
     (\<forall>lab. snd (checkRelevance e q ms) = Inr lab \<and>
        (lab = ''GREETING'' \<or> lab = ''INAPPROPRIATE'' \<or> lab = ''NOT_RELEVANT'') \<longrightarrow>
        contextCount (metadata r) = 0 \<and> rewrittenQuery (metadata r) = [])"
proof -
  obtain lab where lab: "snd (checkRelevance e q ms) = Inr lab"
    using assms
    by (cases "checkRelevance e q ms"; cases "snd (checkRelevance e q ms)")
       (auto simp: pipeline_def)
  consider (g) "lab = ''GREETING''" | (i) "lab = ''INAPPROPRIATE''" | (n) "lab = ''NOT_RELEVANT''"
    | (r) "lab \<noteq> ''GREETING''" "lab \<noteq> ''INAPPROPRIATE''" "lab \<noteq> ''NOT_RELEVANT''"
    by blast
  then show ?thesis
  proof cases
    case g
    with assms lab have "snd (greeting_branch e q) = Inr r"
      by (simp add: pipeline_branch [OF lab])
    from greeting_branch_result [OF this] lab show ?thesis by auto
  next
    case i
    with assms lab show ?thesis
      by (auto simp: pipeline_branch [OF lab] inappropriate_branch_result)
  next
    case n
    with assms lab have "snd (not_relevant_branch e q) = Inr r"
      by (simp add: pipeline_branch [OF lab])
    from not_relevant_branch_result [OF this] lab show ?thesis by auto
  next
    case r
    with assms lab have "snd (relevant_branch e ms q) = Inr r"
      by (simp add: pipeline_branch [OF lab])
    from relevant_branch_result [OF this] lab r show ?thesis by auto
  qed
qed

theorem pipeline_result_invariant_witness:
  "snd (pipeline (example_env (Some ''greeting'') (Inl NonError) links_ok example_rows)
         hi_there ''hi there'') =
     Inr \<lparr>text' = ''An answer.'', type = ''greeting'',
          metadata = \<lparr>input = ''hi there'', output' = ''An answer.'', contextCount = 0,
                      rewrittenQuery = [], responseType = ''greeting''\<rparr>\<rparr> \<and>
   snd (checkRelevance (example_env (Some ''greeting'') (Inl NonError) links_ok example_rows)
         ''hi there'' hi_there) = Inr ''GREETING''"
proof -
  let ?E = "example_env (Some ''greeting'') (Inl NonError) links_ok example_rows"
  let ?r = "\<lparr>text' = ''An answer.'', type = ''greeting'',
          metadata = \<lparr>input = ''hi there'', output' = ''An answer.'', contextCount = 0,
                      rewrittenQuery = [], responseType = ''greeting''\<rparr>\<rparr>"
  have lab: "snd (checkRelevance ?E ''hi there'' hi_there) = Inr ''GREETING''"
    by (simp add: example_checkRelevance string_eval)
  have run: "snd (pipeline ?E hi_there ''hi there'') = Inr ?r"
    by (simp add: pipeline_branch [OF lab] greeting_branch_def chat_completions_create_def
        call_io_def return_io_def example_completion_other greeting_request_def
        or_else_def truthy_def Let_def)
  from pipeline_result_invariant [OF run] lab run show ?thesis
    by simp
qed

subsection \<open>The history window of the prompts\<close>

text \<open>
  C5, as stated, fails: the rewriting prompt is built from the whole history. With six
  messages the request that \<^verbatim>\<open>rewriteQuery\<close> sends is not the one built from the
  last five.
\<close>

theorem rewrite_prompt_full_history:
  "fst (rewriteQuery (example_env (Some ''RELEVANT'') (Inl NonError) links_ok example_rows)
          ''what should I build'' six_messages) =
     [Completion (rewrite_request ''what should I build'' six_messages)] \<and>
   JSON_stringify (slice_last 5 six_messages) \<noteq> JSON_stringify six_messages \<and>
   rewrite_request ''what should I build'' six_messages \<noteq>
     rewrite_request ''what should I build'' (slice_last 5 six_messages)"
proof -
  have "JSON_stringify (slice_last 5 six_messages) \<noteq> JSON_stringify six_messages"
    by (simp add: six_messages_def slice_last_def json_eval)
  then show ?thesis
    by (simp add: rewriteQuery_rewritten_of rewrite_request_def rewritePrompt_def)
qed

text \<open>
  C5, amended. The classification and the generation prompts are built from the last
  five messages of the history only; the rewriting prompt is built from the history as
  passed, and differs from the one of the window whenever the history has more than
  five messages.
\<close>

theorem prompt_history_window:
  "relevancePrompt q h = relevancePrompt q (slice_last 5 h) \<and>
   generationPrompt h c q = generationPrompt (slice_last 5 h) c q \<and>
   length (slice_last 5 h) \<le> 5 \<and>
   fst (checkRelevance e q h) = [Completion (relevance_request q (slice_last 5 h))] \<and>
   fst (rewriteQuery e q h) = [Completion (rewrite_request q h)] \<and>
   (5 < length h \<longrightarrow> rewritePrompt q h \<noteq> rewritePrompt q (slice_last 5 h))"
proof (intro conjI impI)
  show 1: "relevancePrompt q h = relevancePrompt q (slice_last 5 h)"
    by (simp add: relevancePrompt_def slice_last_idem)
  show "generationPrompt h c q = generationPrompt (slice_last 5 h) c q"
    by (simp add: generationPrompt_def slice_last_idem)
  show "length (slice_last 5 h) \<le> 5"
    by (rule slice_last_length)
  show "fst (checkRelevance e q h) = [Completion (relevance_request q (slice_last 5 h))]"
    using 1 by (simp add: checkRelevance_log relevance_request_def)
  show "fst (rewriteQuery e q h) = [Completion (rewrite_request q h)]"
    by (simp add: rewriteQuery_rewritten_of)
next
  assume "5 < length h"
  then have "length (JSON_stringify (slice_last 5 h)) < length (JSON_stringify h)"
    by (rule JSON_stringify_window_shorter)
  then have "length (rewritePrompt q (slice_last 5 h)) < length (rewritePrompt q h)"
    by (simp add: rewritePrompt_def)
  then show "rewritePrompt q h \<noteq> rewritePrompt q (slice_last 5 h)"
    by auto
qed

theorem prompt_history_window_witness:
  "5 < length six_messages \<and>
   rewritePrompt ''what should I build'' six_messages \<noteq>
     rewritePrompt ''what should I build'' (slice_last 5 six_messages)"
proof -
  have "5 < length six_messages"
    by (simp add: six_messages_def)
  with prompt_history_window [of "''what should I build''" six_messages "[]"
      "example_env None (Inl NonError) links_ok []"]
  show ?thesis
    by blast
qed

subsection \<open>Unrecognised classifier output\<close>

text \<open>
  C1. The claim is that a classifier answer outside the four tokens is treated as
  NOT_RELEVANT and never leads into the relevant branch. The route only defaults an
  empty or missing answer; the answer \<^verbatim>\<open>maybe\<close> becomes the label MAYBE, which is none
  of the three labels the pipeline tests for, and the run rewrites, embeds, searches,
  calls the links route and generates a chat answer.
\<close>

theorem unrecognised_label_takes_relevant_branch:
  "snd (checkRelevance (example_env (Some ''maybe'') (Inl NonError) links_ok example_rows)
         ''what glue'' what_glue) = Inr ''MAYBE'' \<and>
   pipeline (example_env (Some ''maybe'') (Inl NonError) links_ok example_rows)
     what_glue ''what glue'' =
     ([Completion (relevance_request ''what glue'' what_glue),
       Completion (rewrite_request ''what glue'' what_glue),
       Embed ''what glue'',
       Query [1, 0] ''bents'' 10,
       Fetch (contextTexts example_docs) ''what glue'',
       Completion (generation_request what_glue (contextTexts example_docs) ''what glue'')],
      Inr (chat_result ''what glue''))"
proof -
  let ?E = "example_env (Some ''maybe'') (Inl NonError) links_ok example_rows"
  have lab: "snd (checkRelevance ?E ''what glue'' what_glue) = Inr ''MAYBE''"
    by (simp add: example_checkRelevance string_eval)
  have lk: "links_request ?E (contextTexts example_docs) ''what glue'' =
      ([Fetch (contextTexts example_docs) ''what glue''], Inr ())"
    by (simp add: links_request_def call_io_def return_io_def example_env_def links_ok_def)
  have g: "completions_create ?E
      (generation_request what_glue (contextTexts example_docs) ''what glue'') =
      Inr (Some ''An answer.'')"
    by (simp add: example_completion_other generation_request_def)
  have "relevant_branch ?E what_glue ''what glue'' =
      ([Completion (rewrite_request ''what glue'' what_glue), Embed ''what glue'',
        Query [1, 0] ''bents'' 10, Fetch (contextTexts example_docs) ''what glue'',
        Completion (generation_request what_glue (contextTexts example_docs) ''what glue'')],
       Inr (chat_result ''what glue''))"
    by (simp add: example_relevant_prefix lk chat_completions_create_def call_io_def g
        return_io_def or_else_def truthy_def Let_def chat_result_def)
  then show ?thesis
    using lab by (simp add: pipeline_branch [OF lab])
qed

subsection \<open>Failure of the links route\<close>

text \<open>
  C2. The claim is that a failing call to the links route leaves the answer untouched.
  In the route the call is awaited with no handler: when it throws, the pipeline ends
  with that thrown value before the generation call, and the handler answers with the
  status 500 and the message of the error; with a links route that answers, the same
  request gets its chat result.
\<close>

theorem links_failure_aborts_pipeline:
  "lastUserMessage_of what_glue = ''what glue'' \<and>
   pipeline (example_env (Some ''RELEVANT'') (Inl NonError) (Inl (Error ''fetch failed''))
       example_rows) what_glue ''what glue'' =
     ([Completion (relevance_request ''what glue'' what_glue),
       Completion (rewrite_request ''what glue'' what_glue),
       Embed ''what glue'',
       Query [1, 0] ''bents'' 10,
       Fetch (contextTexts example_docs) ''what glue''],
      Inl (Error ''fetch failed'')) \<and>
   snd (POST (example_env (Some ''RELEVANT'') (Inl NonError) (Inl (Error ''fetch failed''))
       example_rows) (Inr (Body (MessagesArray what_glue)))) =
     ErrorResponse 500 ''fetch failed'' None \<and>
   snd (pipeline (example_env (Some ''RELEVANT'') (Inl NonError) links_ok example_rows)
       what_glue ''what glue'') = Inr (chat_result ''what glue'')"
proof -
  let ?E = "example_env (Some ''RELEVANT'') (Inl NonError) (Inl (Error ''fetch failed''))
       example_rows"
  let ?K = "example_env (Some ''RELEVANT'') (Inl NonError) links_ok example_rows"
  have q: "lastUserMessage_of what_glue = ''what glue''"
    by (simp add: lastUserMessage_of_def findLast_def or_else_def truthy_def what_glue_def)
  have lab: "snd (checkRelevance ?E ''what glue'' what_glue) = Inr ''RELEVANT''"
    by (simp add: example_checkRelevance string_eval)
  have lk: "links_request ?E (contextTexts example_docs) ''what glue'' =
      ([Fetch (contextTexts example_docs) ''what glue''], Inl (Error ''fetch failed''))"
    by (simp add: links_request_def call_io_def example_env_def)
  have run: "pipeline ?E what_glue ''what glue'' =
     ([Completion (relevance_request ''what glue'' what_glue),
       Completion (rewrite_request ''what glue'' what_glue),
       Embed ''what glue'',
       Query [1, 0] ''bents'' 10,
       Fetch (contextTexts example_docs) ''what glue''],
      Inl (Error ''fetch failed''))"
    by (simp add: pipeline_branch [OF lab] example_relevant_prefix lk)
  have k: "truthy (LANGSMITH_API_KEY ?E)"
    by (simp add: example_env_def truthy_def)
  have post: "snd (POST ?E (Inr (Body (MessagesArray what_glue)))) =
      ErrorResponse 500 ''fetch failed'' None"
    by (simp add: POST_def k q run error_message_def)
  have lab': "snd (checkRelevance ?K ''what glue'' what_glue) = Inr ''RELEVANT''"
    by (simp add: example_checkRelevance string_eval)
  have lk': "links_request ?K (contextTexts example_docs) ''what glue'' =
      ([Fetch (contextTexts example_docs) ''what glue''], Inr ())"
    by (simp add: links_request_def call_io_def return_io_def example_env_def links_ok_def)
  have g: "completions_create ?K
      (generation_request what_glue (contextTexts example_docs) ''what glue'') =
      Inr (Some ''An answer.'')"
    by (simp add: example_completion_other generation_request_def)
  have ok: "snd (pipeline ?K what_glue ''what glue'') = Inr (chat_result ''what glue'')"
    by (simp add: pipeline_branch [OF lab'] example_relevant_prefix lk'
        chat_completions_create_def call_io_def g return_io_def or_else_def truthy_def Let_def
        chat_result_def)
  from q run post ok show ?thesis
    by blast
qed

subsection \<open>The LangSmith key\<close>

text \<open>
  C3, as stated, fails: without the key the request that otherwise gets the streamed
  answer gets the error response with status 500.
\<close>

theorem missing_key_error_response:
  "module_init ((example_env (Some ''GREETING'') (Inl NonError) links_ok example_rows)
          \<lparr>LANGSMITH_API_KEY := None\<rparr>) =
     [ConsoleWarn ''LANGSMITH_API_KEY not found in environment variables''] \<and>
   POST ((example_env (Some ''GREETING'') (Inl NonError) links_ok example_rows)
          \<lparr>LANGSMITH_API_KEY := None\<rparr>) (Inr (Body (MessagesArray hi_there))) =
     ([ConsoleError ''LangSmith API key not configured''],
      ErrorResponse 500 ''LangSmith configuration error'' None) \<and>
   snd (POST (example_env (Some ''GREETING'') (Inl NonError) links_ok example_rows)
          (Inr (Body (MessagesArray hi_there)))) =
     DataStreamResponse
       (stream_request_of (example_env (Some ''GREETING'') (Inl NonError) links_ok example_rows)
          hi_there greeting_result)"
proof -
  let ?E = "example_env (Some ''GREETING'') (Inl NonError) links_ok example_rows"
  have q: "lastUserMessage_of hi_there = ''hi there''"
    by (simp add: lastUserMessage_of_def findLast_def or_else_def truthy_def hi_there_def)
  have lab: "snd (checkRelevance ?E ''hi there'' hi_there) = Inr ''GREETING''"
    by (simp add: example_checkRelevance string_eval)
  have run: "snd (pipeline ?E hi_there ''hi there'') = Inr greeting_result"
    by (simp add: pipeline_branch [OF lab] greeting_branch_def chat_completions_create_def
        call_io_def return_io_def example_completion_other greeting_request_def
        or_else_def truthy_def Let_def greeting_result_def)
  have k: "truthy (LANGSMITH_API_KEY ?E)" "streamText ?E = (\<lambda>r. None)"
    by (simp_all add: example_env_def truthy_def)
  have "snd (POST ?E (Inr (Body (MessagesArray hi_there)))) =
     DataStreamResponse (stream_request_of ?E hi_there greeting_result)"
    using run
    by (cases "pipeline ?E hi_there ''hi there''")
       (simp add: POST_def k q stream_to_user_def split: prod.splits)
  then show ?thesis
    by (simp add: module_init_def POST_def truthy_def)
qed

text \<open>
  C3, amended. When the LangSmith API key is absent (or empty), loading the module logs
  the warning, and every request that carries a messages array is answered with the
  status 500 and the error \<^verbatim>\<open>LangSmith configuration error\<close>, with no call made.
\<close>

theorem missing_key_fails_request:
  "\<not> truthy (LANGSMITH_API_KEY e) \<Longrightarrow>
     module_init e = [ConsoleWarn ''LANGSMITH_API_KEY not found in environment variables''] \<and>
     POST e (Inr (Body (MessagesArray ms))) =
       ([ConsoleError ''LangSmith API key not configured''],
        ErrorResponse 500 ''LangSmith configuration error'' None)"
  by (simp add: module_init_def POST_def)

theorem missing_key_fails_request_witness:
  "\<not> truthy (LANGSMITH_API_KEY
       ((example_env (Some ''RELEVANT'') (Inl NonError) links_ok example_rows)
          \<lparr>LANGSMITH_API_KEY := Some []\<rparr>)) \<and>
   POST ((example_env (Some ''RELEVANT'') (Inl NonError) links_ok example_rows)
          \<lparr>LANGSMITH_API_KEY := Some []\<rparr>) (Inr (Body (MessagesArray what_glue))) =
     ([ConsoleError ''LangSmith API key not configured''],
      ErrorResponse 500 ''LangSmith configuration error'' None)"
proof -
  have k: "\<not> truthy (LANGSMITH_API_KEY
       ((example_env (Some ''RELEVANT'') (Inl NonError) links_ok example_rows)
          \<lparr>LANGSMITH_API_KEY := Some []\<rparr>))"
    by (simp add: truthy_def)
  from missing_key_fails_request [OF k, of what_glue] k show ?thesis
    by blast
qed

subsection \<open>Validation of the request\<close>

text \<open>
  C4, as stated, fails: a request with an empty messages array has the empty query, is
  not rejected, and reaches the classifier; the caller gets the streamed response.
\<close>

theorem empty_messages_reach_classifier:
  "lastUserMessage_of [] = [] \<and>
   POST (example_env (Some ''NOT_RELEVANT'') (Inl NonError) links_ok [])
        (Inr (Body (MessagesArray []))) =
     ([Completion (relevance_request [] []),
       Completion (not_relevant_request []),
       GetSettings ''not-relevant-completion''
         (telemetry_of (example_env (Some ''NOT_RELEVANT'') (Inl NonError) links_ok [])
            empty_query_result ''-completion''),
       StreamText
         (stream_request_of (example_env (Some ''NOT_RELEVANT'') (Inl NonError) links_ok []) []
            empty_query_result)],
      DataStreamResponse
        (stream_request_of (example_env (Some ''NOT_RELEVANT'') (Inl NonError) links_ok []) []
           empty_query_result))"
proof -
  let ?E = "example_env (Some ''NOT_RELEVANT'') (Inl NonError) links_ok []"
  have l: "lastUserMessage_of [] = []"
    by (simp add: lastUserMessage_of_def findLast_def or_else_def truthy_def)
  have lab: "snd (checkRelevance ?E [] []) = Inr ''NOT_RELEVANT''"
    by (simp add: example_checkRelevance string_eval)
  have run: "pipeline ?E [] [] =
      ([Completion (relevance_request [] []), Completion (not_relevant_request [])],
       Inr empty_query_result)"
    by (simp add: pipeline_branch [OF lab] not_relevant_branch_def chat_completions_create_def
        call_io_def return_io_def example_completion_other not_relevant_request_def
        or_else_def truthy_def Let_def empty_query_result_def)
  have k: "truthy (LANGSMITH_API_KEY ?E)" "getSettings ?E = (\<lambda>n t. None)"
    "streamText ?E = (\<lambda>r. None)"
    by (simp_all add: example_env_def truthy_def)
  have t: "type empty_query_result = ''not-relevant''"
    by (simp add: empty_query_result_def)
  show ?thesis
    by (simp add: l POST_def run k log_to_langsmith_def stream_to_user_def t)
qed

text \<open>
  C4, amended. A request whose body is falsy, or whose messages property is missing or
  not an array, is answered with the status 400 and no call is made; so is a body that
  does not parse. A messages array of any content, the empty one and one with an empty
  query included, is passed on: with the LangSmith key set, the first call made is the
  classification of its query.
\<close>

theorem validation_rejects_non_array:
  "POST e (Inr FalsyBody) =
     ([], ErrorResponse 400 ''Invalid request format. Expected messages array.'' None) \<and>
   POST e (Inr (Body Missing)) =
     ([], ErrorResponse 400 ''Invalid request format. Expected messages array.'' None) \<and>
   POST e (Inr (Body NotArray)) =
     ([], ErrorResponse 400 ''Invalid request format. Expected messages array.'' None) \<and>
   completion_calls (fst (POST e (Inl err))) = 0 \<and>
   snd (POST e (Inl err)) = ErrorResponse 400 ''Invalid JSON in request body'' None \<and>
   (truthy (LANGSMITH_API_KEY e) \<longrightarrow>
      prefix [Completion (relevance_request (lastUserMessage_of ms) ms)]
        (fst (POST e (Inr (Body (MessagesArray ms))))))"
proof (intro conjI impI)
  show "prefix [Completion (relevance_request (lastUserMessage_of ms) ms)]
        (fst (POST e (Inr (Body (MessagesArray ms)))))" if "truthy (LANGSMITH_API_KEY e)"
    using that by (rule POST_messages)
qed (simp_all add: POST_def completion_calls_def)

theorem validation_rejects_non_array_witness:
  "truthy (LANGSMITH_API_KEY (example_env (Some ''NOT_RELEVANT'') (Inl NonError) links_ok [])) \<and>
   lastUserMessage_of [] = [] \<and>
   prefix [Completion (relevance_request [] [])]
     (fst (POST (example_env (Some ''NOT_RELEVANT'') (Inl NonError) links_ok [])
             (Inr (Body (MessagesArray [])))))"
proof -
  have k: "truthy (LANGSMITH_API_KEY (example_env (Some ''NOT_RELEVANT'') (Inl NonError) links_ok []))"
    by (simp add: example_env_def truthy_def)
  have l: "lastUserMessage_of [] = []"
    by (simp add: lastUserMessage_of_def findLast_def or_else_def truthy_def)
  from validation_rejects_non_array
    [of "example_env (Some ''NOT_RELEVANT'') (Inl NonError) links_ok []" NonError "[]"] k l
  show ?thesis
    by simp
qed

end
